theory Spec2Isabelle
  imports Main "HOL-Library.Multiset"
begin

section \<open>Data model\<close>

text \<open>
  The message controller of the chat backend
  (\<^verbatim>\<open>backend/src/controllers/messageController.ts\<close>) and the router that mounts it,
  embedded as pure functions over an explicit database state.

  An identifier in the store is a MongoDB ObjectId, held as the hexadecimal string that
  its \<^verbatim>\<open>toString()\<close> prints. A request carries identifiers as strings. Two things
  belong to the library and are parameters of every handler: \<open>isValid\<close>, the test
  \<^verbatim>\<open>mongoose.Types.ObjectId.isValid\<close>, and \<open>canon\<close>, the hexadecimal string of the
  ObjectId that a well-formed string is cast to (the same string in lower case, for
  24 hexadecimal digits). mongoose casts every identifier of a query or of a document
  to an ObjectId, so the store is searched for \<open>canon x\<close>, not for \<open>x\<close>; a string
  that is not well formed cannot be cast and the call throws. A value that is
  \<^verbatim>\<open>undefined\<close> in the source is \<open>None\<close> here and is never valid.
\<close>

type_synonym objectId = string

text \<open>
  Modelled from the spec: the Message schema (\<^verbatim>\<open>models/Message.ts\<close>). A message
  has an identifier, a channel reference, a sender reference, its content, a creation
  timestamp, a last-modified timestamp and an ordered list of Reaction entries, each a
  symbol with the actors who reacted. The field names are the ones the controller uses
  (\<^verbatim>\<open>_id\<close>, \<^verbatim>\<open>channel\<close>, \<^verbatim>\<open>sender\<close>, \<^verbatim>\<open>content\<close>,
  \<^verbatim>\<open>createdAt\<close>, \<^verbatim>\<open>reactions\<close> with \<^verbatim>\<open>emoji\<close> and \<^verbatim>\<open>users\<close>).
  A reference that is null or missing is \<open>None\<close>.
\<close>

record reaction =
  emoji :: string
  users :: "objectId list"

record message =
  msg_id :: objectId
  channel :: "objectId option"
  sender :: "objectId option"
  content :: string
  createdAt :: int
  updatedAt :: int
  reactions :: "reaction list"

text \<open>The Channel schema, restricted to the fields the controller touches.\<close>

record channel_doc =
  chan_id :: objectId
  server :: objectId
  chan_messages :: "objectId list"
  senders :: "objectId list"

text \<open>
  Modelled from the spec: the DiscordServer schema (\<^verbatim>\<open>models/DiscordServer.ts\<close>),
  the membership data behind the Permission Oracle. A member is a user with a list of
  roles, as the \<^verbatim>\<open>$elemMatch\<close> query of \<^verbatim>\<open>createMessage\<close> reads it.
\<close>

record member =
  user :: objectId
  roles :: "string list"

record server_doc =
  srv_id :: objectId
  members :: "member list"

datatype payload = PMessage message | PId objectId

text \<open>
  Everything a handler does to the outside world, in the order it does it: a database
  call (by its name) or an event handed to Socket.IO for a room.
\<close>

datatype effect = Db string | Emit objectId string payload

record state =
  Messages :: "message list"
  Channels :: "channel_doc list"
  Servers :: "server_doc list"
  trace :: "effect list"

datatype json = Err string | Info string | Doc message | Docs "message list"

type_synonym response = "json \<times> nat"

text \<open>
  The part of the Hono context the handlers read: the Socket.IO handle
  (\<open>io\<close> is False when \<^verbatim>\<open>c.get("io")\<close> is undefined), the route parameters, the
  query parameters \<^verbatim>\<open>page\<close> and \<^verbatim>\<open>limit\<close> (absent or empty is \<open>None\<close>; a
  present one is a decimal literal and the model carries the integer
  \<^verbatim>\<open>parseInt\<close> reads from it), and the fields of the JSON body
  (\<open>json_user\<close> is \<^verbatim>\<open>user._id\<close>, \<open>None\<close> when \<^verbatim>\<open>user\<close> or its
  \<^verbatim>\<open>_id\<close> is missing).
\<close>

record request =
  io :: bool
  param :: "string \<rightharpoonup> string"
  query :: "string \<rightharpoonup> int"
  json_content :: "string option"
  json_senderId :: "string option"
  json_emoji :: string
  json_user :: "objectId option"
  json_conversationId :: "string option"

section \<open>JavaScript helpers\<close>

definition falsy :: "string option \<Rightarrow> bool" where
  \<comment> \<open>\<^verbatim>\<open>!x\<close> for a string that may be undefined\<close>
  "falsy x = (case x of None \<Rightarrow> True | Some s \<Rightarrow> s = [])"

definition isValid_opt :: "(string \<Rightarrow> bool) \<Rightarrow> string option \<Rightarrow> bool" where
  \<comment> \<open>\<^verbatim>\<open>ObjectId.isValid(x)\<close>: false for undefined\<close>
  "isValid_opt isValid x = (case x of None \<Rightarrow> False | Some s \<Rightarrow> isValid s)"

fun findIndex :: "('a \<Rightarrow> bool) \<Rightarrow> 'a list \<Rightarrow> nat option" where
  \<comment> \<open>\<^verbatim>\<open>Array.prototype.findIndex\<close>; \<open>None\<close> is the result -1\<close>
  "findIndex P [] = None"
| "findIndex P (x # xs) = (if P x then Some 0 else map_option Suc (findIndex P xs))"

definition splice1 :: "nat \<Rightarrow> 'a list \<Rightarrow> 'a list" where
  \<comment> \<open>\<^verbatim>\<open>xs.splice(i, 1)\<close>, the array that is left\<close>
  "splice1 i xs = take i xs @ drop (Suc i) xs"

section \<open>Database operations\<close>

text \<open>
  Each operation takes the identifiers as the handler passes them, strings of the
  request, and casts them with \<open>canon\<close>. Where the handler has checked a string with
  \<open>isValid\<close> before the call, the cast cannot fail; \<open>Message_findOne\<close> is called
  with a sender that \<^verbatim>\<open>deleteMessage\<close> has not checked, and throws when it is not
  well formed.
\<close>

definition log :: "effect \<Rightarrow> state \<Rightarrow> state" where
  "log e s = s\<lparr>trace := trace s @ [e]\<rparr>"

fun update_first :: "('a \<Rightarrow> bool) \<Rightarrow> ('a \<Rightarrow> 'a) \<Rightarrow> 'a list \<Rightarrow> 'a list" where
  "update_first P f [] = []"
| "update_first P f (x # xs) = (if P x then f x # xs else x # update_first P f xs)"

fun delete_first :: "('a \<Rightarrow> bool) \<Rightarrow> 'a list \<Rightarrow> 'a list" where
  "delete_first P [] = []"
| "delete_first P (x # xs) = (if P x then xs else x # delete_first P xs)"

definition Channel_findById ::
  "(string \<Rightarrow> objectId) \<Rightarrow> string \<Rightarrow> state \<Rightarrow> channel_doc option \<times> state" where
  "Channel_findById canon cid s =
     (find (\<lambda>c. chan_id c = canon cid) (Channels s), log (Db ''Channel.findById'') s)"

definition DiscordServer_findOne ::
  "(string \<Rightarrow> objectId) \<Rightarrow> objectId \<Rightarrow> string \<Rightarrow> string \<Rightarrow> state \<Rightarrow> server_doc option \<times> state" where
  \<comment> \<open>\<^verbatim>\<open>{ _id: sid, members: { $elemMatch: { user: uid, roles: role } } }\<close>; \<open>sid\<close>
      is the reference stored in the channel\<close>
  "DiscordServer_findOne canon sid uid role s =
     (find (\<lambda>d. srv_id d = sid \<and>
                 list_ex (\<lambda>m. user m = canon uid \<and> role \<in> set (roles m)) (members d))
        (Servers s),
      log (Db ''DiscordServer.findOne'') s)"

definition Message_create ::
  "(string \<Rightarrow> objectId) \<Rightarrow> int \<Rightarrow> objectId \<Rightarrow> string \<Rightarrow> string \<Rightarrow> string \<Rightarrow> state
     \<Rightarrow> message \<times> state" where
  \<comment> \<open>\<^verbatim>\<open>Message.create({ channel: cid, sender: uid, content })\<close>; \<open>now\<close> is the clock
      reading and \<open>newId\<close> the identifier issued; a new message has both timestamps at
      \<open>now\<close> and no reaction\<close>
  "Message_create canon now newId cid uid content' s =
     (let m = \<lparr>msg_id = newId, channel = Some (canon cid), sender = Some (canon uid),
               content = content', createdAt = now, updatedAt = now, reactions = []\<rparr>
      in (m, log (Db ''Message.create'') (s\<lparr>Messages := Messages s @ [m]\<rparr>)))"

definition Channel_findByIdAndUpdate ::
  "(string \<Rightarrow> objectId) \<Rightarrow> string \<Rightarrow> objectId \<Rightarrow> string \<Rightarrow> state \<Rightarrow> state" where
  \<comment> \<open>\<^verbatim>\<open>{ $push: { messages: mid }, $addToSet: { senders: uid } }\<close>; \<open>mid\<close> is the
      identifier of the stored message\<close>
  "Channel_findByIdAndUpdate canon cid mid uid s =
     log (Db ''Channel.findByIdAndUpdate'')
       (s\<lparr>Channels := update_first (\<lambda>c. chan_id c = canon cid)
            (\<lambda>c. c\<lparr>chan_messages := chan_messages c @ [mid],
                    senders := (if canon uid \<in> set (senders c) then senders c
                                else senders c @ [canon uid])\<rparr>)
            (Channels s)\<rparr>)"

definition Message_find ::
  "(string \<Rightarrow> objectId) \<Rightarrow> string \<Rightarrow> int \<Rightarrow> int \<Rightarrow> state \<Rightarrow> message list option \<times> state" where
  \<comment> \<open>\<^verbatim>\<open>find({channel}).sort({createdAt: -1}).skip(skip).limit(limit)\<close>; \<open>None\<close> when
      the server rejects the query (a negative skip). A limit of 0 is no limit, a
      negative limit is its absolute value. \<^verbatim>\<open>populate("sender")\<close> replaces the
      sender reference of each result by the user document; the model returns the
      messages as they are stored.\<close>
  "Message_find canon cid skip limit s =
     (let sorted = sort_key (\<lambda>m. - createdAt m)
                     (filter (\<lambda>m. channel m = Some (canon cid)) (Messages s));
          s' = log (Db ''Message.find'') s
      in if skip < 0 then (None, s')
         else let rest = drop (nat skip) sorted
              in (Some (if limit = 0 then rest else take (nat \<bar>limit\<bar>) rest), s'))"

definition Message_findOne ::
  "(string \<Rightarrow> bool) \<Rightarrow> (string \<Rightarrow> objectId) \<Rightarrow> string \<Rightarrow> string option \<Rightarrow> state
     \<Rightarrow> message option option \<times> state" where
  \<comment> \<open>\<^verbatim>\<open>findOne({ _id: mid, sender: u })\<close>. An undefined \<open>u\<close> is sent as null and
      matches only a message without sender; a \<open>u\<close> that is not well formed cannot be
      cast, and the call throws: the outer \<open>None\<close>.\<close>
  "Message_findOne isValid canon mid u s =
     (let s' = log (Db ''Message.findOne'') s
      in case u of
           None \<Rightarrow>
             (Some (find (\<lambda>m. msg_id m = canon mid \<and> sender m = None) (Messages s)), s')
         | Some x \<Rightarrow>
             if \<not> isValid x then (None, s')
             else (Some (find (\<lambda>m. msg_id m = canon mid \<and> sender m = Some (canon x))
                           (Messages s)), s'))"

definition Message_findById ::
  "(string \<Rightarrow> objectId) \<Rightarrow> string \<Rightarrow> state \<Rightarrow> message option \<times> state" where
  "Message_findById canon mid s =
     (find (\<lambda>m. msg_id m = canon mid) (Messages s), log (Db ''Message.findById'') s)"

definition Message_findByIdAndDelete ::
  "(string \<Rightarrow> objectId) \<Rightarrow> string \<Rightarrow> state \<Rightarrow> message option \<times> state" where
  "Message_findByIdAndDelete canon mid s =
     (find (\<lambda>m. msg_id m = canon mid) (Messages s),
      log (Db ''Message.findByIdAndDelete'')
        (s\<lparr>Messages := delete_first (\<lambda>m. msg_id m = canon mid) (Messages s)\<rparr>))"

text \<open>
  Modelled from the spec: an edit of the content refreshes the last-modified timestamp
  (the schema option that does so is part of \<^verbatim>\<open>models/Message.ts\<close>).
\<close>

definition Message_findByIdAndUpdate ::
  "(string \<Rightarrow> objectId) \<Rightarrow> int \<Rightarrow> string \<Rightarrow> string \<Rightarrow> state \<Rightarrow> message option \<times> state" where
  \<comment> \<open>\<^verbatim>\<open>findByIdAndUpdate(mid, { content }, { new: true })\<close> at clock reading \<open>now\<close>\<close>
  "Message_findByIdAndUpdate canon now mid c s =
     (map_option (\<lambda>m. m\<lparr>content := c, updatedAt := now\<rparr>)
        (find (\<lambda>m. msg_id m = canon mid) (Messages s)),
      log (Db ''Message.findByIdAndUpdate'')
        (s\<lparr>Messages := update_first (\<lambda>m. msg_id m = canon mid)
             (\<lambda>m. m\<lparr>content := c, updatedAt := now\<rparr>) (Messages s)\<rparr>))"

definition Channel_updateOne :: "(string \<Rightarrow> objectId) \<Rightarrow> string \<Rightarrow> state \<Rightarrow> state" where
  \<comment> \<open>\<^verbatim>\<open>updateOne({ messages: mid }, { $pull: { messages: mid } })\<close>\<close>
  "Channel_updateOne canon mid s =
     log (Db ''Channel.updateOne'')
       (s\<lparr>Channels := update_first (\<lambda>c. canon mid \<in> set (chan_messages c))
            (\<lambda>c. c\<lparr>chan_messages := removeAll (canon mid) (chan_messages c)\<rparr>) (Channels s)\<rparr>)"

definition Message_save :: "message \<Rightarrow> state \<Rightarrow> state" where
  \<comment> \<open>\<^verbatim>\<open>message.save()\<close>: the stored document becomes the one in memory\<close>
  "Message_save m s =
     log (Db ''Message.save'')
       (s\<lparr>Messages := update_first (\<lambda>x. msg_id x = msg_id m) (\<lambda>_. m) (Messages s)\<rparr>)"

definition emit :: "string \<Rightarrow> string \<Rightarrow> payload \<Rightarrow> state \<Rightarrow> state" where
  \<comment> \<open>\<^verbatim>\<open>io.to(room).emit(event, payload)\<close>\<close>
  "emit room ev p s = log (Emit room ev p) s"

section \<open>The handlers\<close>

definition createMessage ::
  "(string \<Rightarrow> bool) \<Rightarrow> (string \<Rightarrow> objectId) \<Rightarrow> int \<Rightarrow> objectId \<Rightarrow> request \<Rightarrow> state
     \<Rightarrow> response \<times> state" where
  "createMessage isValid canon now newId c s =
     (if \<not> io c then ((Err ''Socket.IO instance not available'', 500), s)
      else let channelId = param c ''channelId'';
               content' = json_content c;
               senderId = json_senderId c
      in if falsy channelId \<or> falsy senderId \<or> falsy content'
         then ((Err ''Missing required fields'', 400), s)
         else if \<not> isValid_opt isValid channelId \<or> \<not> isValid_opt isValid senderId
         then ((Err ''Invalid ID format'', 400), s)
         else case Channel_findById canon (the channelId) s of
           (None, s1) \<Rightarrow> ((Err ''Channel not found'', 404), s1)
         | (Some ch, s1) \<Rightarrow>
            (case DiscordServer_findOne canon (server ch) (the senderId) ''send messages'' s1 of
               (None, s2) \<Rightarrow> ((Err ''You do not have permission to send messages'', 403), s2)
             | (Some _, s2) \<Rightarrow>
                (case Message_create canon now newId (the channelId) (the senderId)
                        (the content') s2 of
                   (newMessage, s3) \<Rightarrow>
                     let s4 = emit (the channelId) ''message'' (PMessage newMessage) s3;
                         s5 = Channel_findByIdAndUpdate canon (the channelId) (msg_id newMessage)
                                (the senderId) s4
                     in ((Doc newMessage, 201), s5))))"

definition getMessagesByChannelId_messages ::
  "(string \<Rightarrow> bool) \<Rightarrow> (string \<Rightarrow> objectId) \<Rightarrow> request \<Rightarrow> state
     \<Rightarrow> (response + message list) \<times> state" where
  \<comment> \<open>lines 63 to 78 of \<^verbatim>\<open>getMessagesByChannelId\<close>: \<open>Inr\<close> the value of
      \<^verbatim>\<open>messages\<close>, the sequence that the query for the page returns, or \<open>Inl\<close>
      the response with which the handler has left before (400) or on a query that
      throws (500)\<close>
  "getMessagesByChannelId_messages isValid canon c s =
     (let channelId = param c ''channelId'';
          page = (case query c ''page'' of None \<Rightarrow> 1 | Some p \<Rightarrow> p);
          limit = (case query c ''limit'' of None \<Rightarrow> 50 | Some l \<Rightarrow> l);
          skip = (page - 1) * limit
      in if falsy channelId then (Inl (Err ''Channel ID is required'', 400), s)
         else if \<not> isValid_opt isValid channelId
         then (Inl (Err ''Invalid channel ID format'', 400), s)
         else case Message_find canon (the channelId) skip limit s of
           (None, s1) \<Rightarrow> (Inl (Err ''Failed to fetch messages'', 500), s1)
         | (Some msgs, s1) \<Rightarrow> (Inr msgs, s1))"

definition getMessagesByChannelId ::
  "(string \<Rightarrow> bool) \<Rightarrow> (string \<Rightarrow> objectId) \<Rightarrow> request \<Rightarrow> state \<Rightarrow> response \<times> state" where
  \<comment> \<open>lines 79 to 82 on top of the query: what the handler answers\<close>
  "getMessagesByChannelId isValid canon c s =
     (case getMessagesByChannelId_messages isValid canon c s of
        (Inl r, s1) \<Rightarrow> (r, s1)
      | (Inr messages, s1) \<Rightarrow>
          if length messages = 0
          then ((Info ''No messages found for this channel'', 404), s1)
          else ((Docs messages, 200), s1))"

definition deleteMessage ::
  "(string \<Rightarrow> bool) \<Rightarrow> (string \<Rightarrow> objectId) \<Rightarrow> request \<Rightarrow> state \<Rightarrow> response \<times> state" where
  "deleteMessage isValid canon c s =
     (let messageId = param c ''messageId'';
          user' = param c ''user''
      in if falsy messageId then ((Err ''Message ID is required'', 400), s)
         else if \<not> isValid_opt isValid messageId
         then ((Err ''Invalid message ID format'', 400), s)
         else case Message_findOne isValid canon (the messageId) user' s of
           (None, s1) \<Rightarrow> ((Err ''Failed to delete message'', 500), s1)
         | (Some None, s1) \<Rightarrow>
             ((Err ''You do not have permission to delete messages'', 403), s1)
         | (Some (Some _), s1) \<Rightarrow>
            (case Message_findByIdAndDelete canon (the messageId) s1 of
               (None, s2) \<Rightarrow> ((Err ''Message not found'', 404), s2)
             | (Some deletedMessage, s2) \<Rightarrow>
                (case channel deletedMessage of
                   None \<Rightarrow> ((Err ''Invalid channel ID'', 400), s2)
                 | Some channelIdString \<Rightarrow>
                     if \<not> io c then ((Err ''Failed to delete message'', 500), s2)
                     else let s3 = emit channelIdString ''messageDeleted'' (PId (the messageId)) s2;
                              s4 = Channel_updateOne canon (the messageId) s3
                          in ((Info ''Message deleted successfully'', 200), s4))))"

definition updateMessage ::
  "(string \<Rightarrow> bool) \<Rightarrow> (string \<Rightarrow> objectId) \<Rightarrow> int \<Rightarrow> request \<Rightarrow> state
     \<Rightarrow> response \<times> state" where
  "updateMessage isValid canon now c s =
     (let messageId = param c ''messageId'';
          userId = param c ''userId''
      in if falsy messageId then ((Err ''Message ID is required'', 400), s)
         else if \<not> isValid_opt isValid messageId \<or> \<not> isValid_opt isValid userId
         then ((Err ''Invalid message ID format or user ID format'', 400), s)
         else if falsy (json_content c) then ((Err ''Content is required'', 400), s)
         else case Message_findOne isValid canon (the messageId) userId s of
           (None, s1) \<Rightarrow> ((Err ''Failed to update message'', 500), s1)
         | (Some None, s1) \<Rightarrow>
             ((Err ''You do not have permission to update messages'', 403), s1)
         | (Some (Some _), s1) \<Rightarrow>
            (case Message_findByIdAndUpdate canon now (the messageId) (the (json_content c)) s1 of
               (None, s2) \<Rightarrow> ((Err ''Message not found'', 404), s2)
             | (Some updatedMessage, s2) \<Rightarrow>
                (case channel updatedMessage of
                   None \<Rightarrow> ((Err ''Invalid channel ID'', 400), s2)
                 | Some channelIdString \<Rightarrow>
                     if \<not> io c then ((Err ''Failed to update message'', 500), s2)
                     else ((Doc updatedMessage, 200),
                           emit channelIdString ''messageUpdated'' (PMessage updatedMessage) s2))))"

definition toggle ::
  "(string \<Rightarrow> bool) \<Rightarrow> (string \<Rightarrow> objectId) \<Rightarrow> string \<Rightarrow> string \<Rightarrow> reaction list
     \<Rightarrow> reaction list option" where
  \<comment> \<open>lines 194 to 213 of \<^verbatim>\<open>toggleReaction\<close>: what becomes of
      \<^verbatim>\<open>message.reactions\<close> for the symbol \<open>e\<close> and the string \<open>u\<close> sent as
      \<^verbatim>\<open>user._id\<close>. The actor is looked up by comparing the hexadecimal string of
      each stored identifier with \<open>u\<close> as sent. A push casts \<open>u\<close> to an ObjectId;
      \<open>None\<close> when \<open>u\<close> is not well formed and the document cannot take it.\<close>
  "toggle isValid canon e u rs =
     (case findIndex (\<lambda>r. emoji r = e) rs of
        Some reactionIndex \<Rightarrow>
          let reaction = rs ! reactionIndex
          in (case findIndex (\<lambda>x. x = u) (users reaction) of
                Some userIndex \<Rightarrow>
                  let users' = splice1 userIndex (users reaction)
                  in Some (if length users' = 0 then splice1 reactionIndex rs
                           else rs[reactionIndex := reaction\<lparr>users := users'\<rparr>])
              | None \<Rightarrow>
                  if isValid u
                  then Some (rs[reactionIndex := reaction\<lparr>users := users reaction @ [canon u]\<rparr>])
                  else None)
      | None \<Rightarrow>
          if isValid u then Some (rs @ [\<lparr>emoji = e, users = [canon u]\<rparr>]) else None)"

definition toggleReaction ::
  "(string \<Rightarrow> bool) \<Rightarrow> (string \<Rightarrow> objectId) \<Rightarrow> request \<Rightarrow> state \<Rightarrow> response \<times> state" where
  "toggleReaction isValid canon c s =
     (let messageId = param c ''messageId'';
          conversationId = json_conversationId c
      in if \<not> isValid_opt isValid messageId \<or> \<not> isValid_opt isValid conversationId
         then ((Err ''Invalid ID format'', 400), s)
         else case Message_findById canon (the messageId) s of
           (None, s1) \<Rightarrow> ((Err ''Message not found'', 404), s1)
         | (Some message, s1) \<Rightarrow>
            (case json_user c of
               None \<Rightarrow> ((Err ''Failed to add reaction'', 500), s1)
             | Some userId \<Rightarrow>
                (case toggle isValid canon (json_emoji c) userId (reactions message) of
                   None \<Rightarrow> ((Err ''Failed to add reaction'', 500), s1)
                 | Some reactions' \<Rightarrow>
                     let message' = message\<lparr>reactions := reactions'\<rparr>;
                         s2 = Message_save message' s1
                     in if \<not> io c then ((Err ''Failed to add reaction'', 500), s2)
                        else ((Info ''Reaction updated successfully'', 200),
                              emit (the conversationId) ''reactionUpdated''
                                (PMessage message') s2))))"

section \<open>The router\<close>

text \<open>
  \<^verbatim>\<open>messageRouter\<close>: each route pattern has one parameter, and
  \<^verbatim>\<open>c.req.param()\<close> holds that parameter and no other. A request is a method,
  the path split at \<open>/\<close>, and the rest of the context; \<open>None\<close> means that no route
  of this router matches.
\<close>

datatype http_method = GET | POST | PUT | DELETE

definition messageRouter ::
  "(string \<Rightarrow> bool) \<Rightarrow> (string \<Rightarrow> objectId) \<Rightarrow> int \<Rightarrow> objectId \<Rightarrow> http_method \<Rightarrow> string list
     \<Rightarrow> request \<Rightarrow> state \<Rightarrow> (response \<times> state) option" where
  "messageRouter isValid canon now newId m path c s =
     (case path of
        [name, seg] \<Rightarrow>
          if seg = [] then None
          else if m = GET \<and> name = ''get-messages''
          then Some (getMessagesByChannelId isValid canon (c\<lparr>param := [''channelId'' \<mapsto> seg]\<rparr>) s)
          else if m = POST \<and> name = ''create-message''
          then Some (createMessage isValid canon now newId
                       (c\<lparr>param := [''channelId'' \<mapsto> seg]\<rparr>) s)
          else if m = DELETE \<and> name = ''delete-message''
          then Some (deleteMessage isValid canon (c\<lparr>param := [''messageId'' \<mapsto> seg]\<rparr>) s)
          else if m = PUT \<and> name = ''update-message''
          then Some (updateMessage isValid canon now (c\<lparr>param := [''messageId'' \<mapsto> seg]\<rparr>) s)
          else if m = PUT \<and> name = ''add-reaction''
          then Some (toggleReaction isValid canon (c\<lparr>param := [''messageId'' \<mapsto> seg]\<rparr>) s)
          else None
      | _ \<Rightarrow> None)"

section \<open>The Reaction Ledger\<close>

text \<open>
  The Reaction Ledger of a message as the specification describes it: a mapping from a
  reaction symbol to the set of actors who reacted with it.
\<close>

type_synonym ledger = "string \<rightharpoonup> objectId set"

definition ledger_of :: "reaction list \<Rightarrow> ledger" where
  "ledger_of rs e = map_option (\<lambda>r. set (users r)) (find (\<lambda>r. emoji r = e) rs)"

definition wf_ledger :: "reaction list \<Rightarrow> bool" where
  \<comment> \<open>one entry per symbol, no actor twice in an entry, no entry without actors\<close>
  "wf_ledger rs =
     (distinct (map emoji rs) \<and> list_all (\<lambda>r. users r \<noteq> [] \<and> distinct (users r)) rs)"

definition toggle_spec :: "string \<Rightarrow> objectId \<Rightarrow> ledger \<Rightarrow> ledger" where
  \<comment> \<open>the three cases of ToggleReaction in the words of the specification\<close>
  "toggle_spec e u L =
     (case L e of
        None \<Rightarrow> L(e \<mapsto> {u})
      | Some U \<Rightarrow>
          if u \<in> U then (if U - {u} = {} then L(e := None) else L(e \<mapsto> U - {u}))
          else L(e \<mapsto> insert u U))"

definition no_empty_entry :: "state \<Rightarrow> bool" where
  \<comment> \<open>no stored message has a reaction entry without actors\<close>
  "no_empty_entry s =
     list_all (\<lambda>m. list_all (\<lambda>r. length (users r) > 0) (reactions m)) (Messages s)"


section \<open>Reachable states and the order of effects\<close>

text \<open>
  The states the five handlers produce, in any order and on any requests, from a store
  that holds no message yet.
\<close>

inductive reachable :: "(string \<Rightarrow> bool) \<Rightarrow> (string \<Rightarrow> objectId) \<Rightarrow> state \<Rightarrow> bool"
  for isValid canon where
  initial: "Messages s = [] \<Longrightarrow> reachable isValid canon s"
| create: "reachable isValid canon s \<Longrightarrow>
     reachable isValid canon (snd (createMessage isValid canon now newId c s))"
| list: "reachable isValid canon s \<Longrightarrow>
     reachable isValid canon (snd (getMessagesByChannelId isValid canon c s))"
| delete: "reachable isValid canon s \<Longrightarrow>
     reachable isValid canon (snd (deleteMessage isValid canon c s))"
| update: "reachable isValid canon s \<Longrightarrow>
     reachable isValid canon (snd (updateMessage isValid canon now c s))"
| react: "reachable isValid canon s \<Longrightarrow>
     reachable isValid canon (snd (toggleReaction isValid canon c s))"

fun is_emit :: "effect \<Rightarrow> bool" where
  "is_emit (Emit _ _ _) = True"
| "is_emit (Db _) = False"

definition is_index_update :: "effect \<Rightarrow> bool" where
  \<comment> \<open>the two writes to the Channel summary\<close>
  "is_index_update e = (e = Db ''Channel.findByIdAndUpdate'' \<or> e = Db ''Channel.updateOne'')"

definition index_update_before_emit :: "effect list \<Rightarrow> bool" where
  \<comment> \<open>an event is emitted after the first write to the Channel summary\<close>
  "index_update_before_emit t = list_ex is_emit (dropWhile (\<lambda>e. \<not> is_index_update e) t)"

section \<open>A concrete scenario\<close>

text \<open>
  Channel C of server D; S may send messages there, U is a member without that role.
  \<open>isHex24\<close> and \<open>canon24\<close> are what the two library parameters are for strings of
  24 hexadecimal digits: the test for them, and the same digits in lower case.
\<close>

definition isHex24 :: "string \<Rightarrow> bool" where
  "isHex24 s = (length s = 24 \<and> list_all (\<lambda>c. c \<in> set ''0123456789abcdefABCDEF'') s)"

definition lower_hex :: "char \<Rightarrow> char" where
  "lower_hex c =
     (if c = CHR ''A'' then CHR ''a'' else if c = CHR ''B'' then CHR ''b''
      else if c = CHR ''C'' then CHR ''c'' else if c = CHR ''D'' then CHR ''d''
      else if c = CHR ''E'' then CHR ''e'' else if c = CHR ''F'' then CHR ''f'' else c)"

definition canon24 :: "string \<Rightarrow> objectId" where
  "canon24 s = map lower_hex s"

definition chanC :: objectId where "chanC = ''64b7f00000000000000000c1''"
definition srvD :: objectId where "srvD = ''64b7f00000000000000000d1''"
definition userS :: objectId where "userS = ''64b7f00000000000000000a1''"
definition userU :: objectId where "userU = ''64b7f00000000000000000a2''"
definition msgM :: objectId where "msgM = ''64b7f00000000000000000e1''"

definition userS_upper :: string where
  \<comment> \<open>the identifier of S as a client may also spell it\<close>
  "userS_upper = ''64B7F00000000000000000A1''"

definition chanC_upper :: string where
  "chanC_upper = ''64B7F00000000000000000C1''"

definition ex_server :: server_doc where
  "ex_server = \<lparr>srv_id = srvD,
                 members = [\<lparr>user = userS, roles = [''send messages'']\<rparr>,
                            \<lparr>user = userU, roles = []\<rparr>]\<rparr>"

definition ex_init :: state where
  \<comment> \<open>channel C exists and holds no message\<close>
  "ex_init = \<lparr>Messages = [],
               Channels = [\<lparr>chan_id = chanC, server = srvD, chan_messages = [], senders = []\<rparr>],
               Servers = [ex_server], trace = []\<rparr>"

definition ex_message :: message where
  "ex_message = \<lparr>msg_id = msgM, channel = Some chanC, sender = Some userS, content = ''hi'',
                  createdAt = 1000, updatedAt = 1000, reactions = []\<rparr>"

definition ex_posted :: state where
  \<comment> \<open>S has posted "hi" in C\<close>
  "ex_posted = \<lparr>Messages = [ex_message],
                 Channels = [\<lparr>chan_id = chanC, server = srvD, chan_messages = [msgM],
                              senders = [userS]\<rparr>],
                 Servers = [ex_server], trace = []\<rparr>"

definition ex_liked :: state where
  \<comment> \<open>S has reacted to that message with +1\<close>
  "ex_liked = ex_posted\<lparr>Messages :=
                [ex_message\<lparr>reactions := [\<lparr>emoji = ''+1'', users = [userS]\<rparr>]\<rparr>]\<rparr>"

definition ex_request :: request where
  \<comment> \<open>a request with no parameter and an empty body\<close>
  "ex_request = \<lparr>io = True, param = Map.empty, query = Map.empty, json_content = None,
                  json_senderId = None, json_emoji = [], json_user = None,
                  json_conversationId = None\<rparr>"

definition ex_create :: request where
  "ex_create = ex_request\<lparr>param := [''channelId'' \<mapsto> chanC], json_content := Some ''hi'',
                          json_senderId := Some userS\<rparr>"

definition ex_react :: "string \<Rightarrow> string option \<Rightarrow> request" where
  \<comment> \<open>the actor toggles +1 on the message, the event going to the given feed\<close>
  "ex_react actor feed = ex_request\<lparr>param := [''messageId'' \<mapsto> msgM], json_emoji := ''+1'',
                                    json_user := Some actor, json_conversationId := feed\<rparr>"

definition ex_chat :: "objectId \<Rightarrow> int \<Rightarrow> objectId \<Rightarrow> message" where
  \<comment> \<open>a message of S with the given identifier, creation time and channel\<close>
  "ex_chat i n c = \<lparr>msg_id = i, channel = Some c, sender = Some userS, content = ''hi'',
                     createdAt = n, updatedAt = n, reactions = []\<rparr>"

definition ex_created :: "message list" where
  \<comment> \<open>five messages m1 to m5 of channel C, in the order of their creation\<close>
  "ex_created = [ex_chat ''64b7f00000000000000000e1'' 1001 chanC,
                 ex_chat ''64b7f00000000000000000e2'' 1002 chanC,
                 ex_chat ''64b7f00000000000000000e3'' 1004 chanC,
                 ex_chat ''64b7f00000000000000000e4'' 1005 chanC,
                 ex_chat ''64b7f00000000000000000e5'' 1006 chanC]"

definition ex_five :: state where
  \<comment> \<open>a store that holds m1 to m5 and a message of another channel, in no particular
      order\<close>
  "ex_five = \<lparr>Messages = [ex_chat ''64b7f00000000000000000e3'' 1004 chanC,
                           ex_chat ''64b7f00000000000000000e1'' 1001 chanC,
                           ex_chat ''64b7f00000000000000000f1'' 1003 ''64b7f00000000000000000c2'',
                           ex_chat ''64b7f00000000000000000e5'' 1006 chanC,
                           ex_chat ''64b7f00000000000000000e2'' 1002 chanC,
                           ex_chat ''64b7f00000000000000000e4'' 1005 chanC],
               Channels = [], Servers = [], trace = []\<rparr>"

definition ex_page :: "string \<Rightarrow> (string \<rightharpoonup> int) \<Rightarrow> request" where
  \<comment> \<open>a listing request for the channel spelled \<open>cid\<close>, with the given query\<close>
  "ex_page cid q = ex_request\<lparr>param := [''channelId'' \<mapsto> cid], query := q\<rparr>"

lemmas scenario_defs =
  isHex24_def canon24_def lower_hex_def chanC_def srvD_def userS_def userU_def msgM_def
  userS_upper_def chanC_upper_def ex_server_def ex_init_def ex_message_def ex_posted_def
  ex_liked_def ex_request_def ex_create_def ex_react_def ex_chat_def ex_created_def
  ex_five_def ex_page_def

section \<open>Lists and the store\<close>

lemma splice1_0: "splice1 0 xs = tl xs"
  by (simp add: splice1_def drop_Suc)

lemma splice1_Suc: "splice1 (Suc i) (x # xs) = x # splice1 i xs"
  by (simp add: splice1_def)

lemma findIndex_None: "findIndex P xs = None \<longleftrightarrow> (\<forall>x\<in>set xs. \<not> P x)"
  by (induction xs) auto

lemma splice1_findIndex: "findIndex (\<lambda>x. x = u) xs = Some i \<Longrightarrow> splice1 i xs = remove1 u xs"
  by (induction xs arbitrary: i) (auto simp: splice1_0 splice1_Suc split: if_splits)

lemma findIndex_Some_mem: "findIndex (\<lambda>x. x = u) xs = Some i \<Longrightarrow> u \<in> set xs"
  by (induction xs arbitrary: i) (auto split: if_splits)

lemma find_Some_P: "find P xs = Some x \<Longrightarrow> P x \<and> x \<in> set xs"
  by (induction xs) (auto split: if_splits)

lemma find_conj: "find P xs = Some x \<Longrightarrow> Q x \<Longrightarrow> find (\<lambda>y. P y \<and> Q y) xs = Some x"
  by (induction xs) (auto split: if_splits)

lemma find_conj_None: "find P xs = None \<Longrightarrow> find (\<lambda>y. P y \<and> Q y) xs = None"
  by (induction xs) (auto split: if_splits)

lemma find_update_first:
  "find P xs = Some x \<Longrightarrow> P (f x) \<Longrightarrow> find P (update_first P f xs) = Some (f x)"
  by (induction xs) (auto split: if_splits)

lemma list_all_update_first:
  "list_all Q xs \<Longrightarrow> (\<And>x. x \<in> set xs \<Longrightarrow> P x \<Longrightarrow> Q (f x)) \<Longrightarrow> list_all Q (update_first P f xs)"
  by (induction xs) auto

lemma list_all_delete_first: "list_all Q xs \<Longrightarrow> list_all Q (delete_first P xs)"
  by (induction xs) auto

lemma set_update_first:
  "x \<in> set (update_first P f xs) \<Longrightarrow> x \<in> set xs \<or> (\<exists>y\<in>set xs. P y \<and> x = f y)"
  by (induction xs) (auto split: if_splits)

lemma Messages_log [simp]: "Messages (log e s) = Messages s"
  by (simp add: log_def)

lemma Channels_log [simp]: "Channels (log e s) = Channels s"
  by (simp add: log_def)

lemma Servers_log [simp]: "Servers (log e s) = Servers s"
  by (simp add: log_def)

lemma trace_log [simp]: "trace (log e s) = trace s @ [e]"
  by (simp add: log_def)



section \<open>The toggle on the stored array and on the ledger\<close>

lemma toggle_Nil:
  "toggle isValid canon e u [] = (if isValid u then Some [\<lparr>emoji = e, users = [canon u]\<rparr>] else None)"
  by (simp add: toggle_def)

lemma toggle_Cons:
  "toggle isValid canon e u (r # rs) =
     (if emoji r = e
      then (case findIndex (\<lambda>x. x = u) (users r) of
              Some i \<Rightarrow> Some (if splice1 i (users r) = [] then rs
                               else r\<lparr>users := splice1 i (users r)\<rparr> # rs)
            | None \<Rightarrow> if isValid u then Some (r\<lparr>users := users r @ [canon u]\<rparr> # rs) else None)
      else map_option ((#) r) (toggle isValid canon e u rs))"
  by (auto simp: toggle_def splice1_0 splice1_Suc Let_def split: option.splits)

lemma ledger_of_Nil: "ledger_of [] = Map.empty"
  by (auto simp: ledger_of_def)

lemma ledger_of_Cons:
  "ledger_of (r # rs) = (\<lambda>e. if emoji r = e then Some (set (users r)) else ledger_of rs e)"
  by (auto simp: ledger_of_def)

lemma ledger_of_notin: "e \<notin> emoji ` set rs \<Longrightarrow> ledger_of rs e = None"
  by (induction rs) (auto simp: ledger_of_Cons ledger_of_Nil)

text \<open>
  For an actor whose identifier is well formed and is sent as the store holds it
  (\<open>canon u = u\<close>), the toggle never throws and is, on a well-formed ledger, the
  toggle of the specification.
\<close>

lemma toggle_Some:
  "isValid u \<Longrightarrow> \<exists>rs'. toggle isValid canon e u rs = Some rs'"
  by (induction rs) (auto simp: toggle_Nil toggle_Cons split: option.splits)

lemma toggle_refines:
  assumes "isValid u" and "canon u = u"
  shows "wf_ledger rs \<Longrightarrow> toggle isValid canon e u rs = Some rs' \<Longrightarrow>
         ledger_of rs' = toggle_spec e u (ledger_of rs)"
proof (induction rs arbitrary: rs')
  case Nil
  then show ?case using assms
    by (auto simp: toggle_Nil ledger_of_Cons ledger_of_Nil toggle_spec_def)
next
  case (Cons r rs)
  then have wf: "wf_ledger rs" and d: "distinct (users r)"
    and notin: "emoji r \<notin> emoji ` set rs"
    by (auto simp: wf_ledger_def)
  show ?case
  proof (cases "emoji r = e")
    case False
    with Cons.prems(2) obtain rs'' where t: "toggle isValid canon e u rs = Some rs''"
      and rs': "rs' = r # rs''"
      by (auto simp: toggle_Cons)
    from Cons.IH [OF wf t] False rs' show ?thesis
      by (auto simp: ledger_of_Cons toggle_spec_def fun_eq_iff split: option.splits)
  next
    case True
    have rest: "ledger_of rs e = None" using notin True by (simp add: ledger_of_notin)
    show ?thesis
    proof (cases "findIndex (\<lambda>x. x = u) (users r)")
      case None
      then have nm: "u \<notin> set (users r)" by (auto simp: findIndex_None)
      have rs': "rs' = r\<lparr>users := users r @ [u]\<rparr> # rs"
        using Cons.prems(2) True None assms by (simp add: toggle_Cons)
      show ?thesis unfolding rs' using True nm
        by (auto simp: ledger_of_Cons toggle_spec_def fun_eq_iff)
    next
      case (Some i)
      then have mem: "u \<in> set (users r)" and sp: "splice1 i (users r) = remove1 u (users r)"
        by (auto simp: findIndex_Some_mem splice1_findIndex)
      have s: "set (remove1 u (users r)) = set (users r) - {u}" using d by simp
      have e: "remove1 u (users r) = [] \<longleftrightarrow> set (users r) - {u} = {}" using s
        by (metis set_empty)
      have rs': "rs' = (if remove1 u (users r) = [] then rs
                        else r\<lparr>users := remove1 u (users r)\<rparr> # rs)"
        using Cons.prems(2) True Some sp by (auto simp: toggle_Cons)
      show ?thesis unfolding rs' using True mem s e rest notin
        by (auto simp: ledger_of_Cons toggle_spec_def fun_eq_iff ledger_of_notin)
    qed
  qed
qed

lemma set_toggle_emoji:
  "toggle isValid canon e u rs = Some rs' \<Longrightarrow> emoji ` set rs' \<subseteq> insert e (emoji ` set rs)"
proof (induction rs arbitrary: rs')
  case Nil
  then show ?case by (auto simp: toggle_Nil split: if_splits)
next
  case (Cons r rs)
  show ?case
  proof (cases "emoji r = e")
    case True
    with Cons.prems show ?thesis
      by (auto simp: toggle_Cons split: option.splits if_splits)
  next
    case False
    with Cons.prems obtain rs'' where t: "toggle isValid canon e u rs = Some rs''"
      and rs': "rs' = r # rs''"
      by (auto simp: toggle_Cons)
    from Cons.IH [OF t] rs' show ?thesis by auto
  qed
qed


lemma nonempty_toggle:
  "list_all (\<lambda>r. users r \<noteq> []) rs \<Longrightarrow> toggle isValid canon e u rs = Some rs' \<Longrightarrow>
   list_all (\<lambda>r. users r \<noteq> []) rs'"
  by (induction rs arbitrary: rs')
     (auto simp: toggle_Nil toggle_Cons split: option.splits if_splits)

lemma distinct_emoji_toggle:
  "distinct (map emoji rs) \<Longrightarrow> toggle isValid canon e u rs = Some rs' \<Longrightarrow>
   distinct (map emoji rs')"
proof (induction rs arbitrary: rs')
  case Nil
  then show ?case by (auto simp: toggle_Nil split: if_splits)
next
  case (Cons r rs)
  from Cons.prems(1) have d: "distinct (map emoji rs)" and notin: "emoji r \<notin> emoji ` set rs"
    by auto
  show ?case
  proof (cases "emoji r = e")
    case True
    with Cons.prems(2) have "rs' = rs \<or> (\<exists>us. rs' = r\<lparr>users := us\<rparr> # rs)"
      by (auto simp: toggle_Cons split: option.splits if_splits)
    then show ?thesis using d notin by auto
  next
    case False
    with Cons.prems(2) obtain rs'' where t: "toggle isValid canon e u rs = Some rs''"
      and rs': "rs' = r # rs''"
      by (auto simp: toggle_Cons)
    have "emoji r \<notin> emoji ` set rs''"
      using set_toggle_emoji [OF t] notin False by auto
    with Cons.IH [OF d t] show ?thesis unfolding rs' by simp
  qed
qed



text \<open>
  The stored array itself is not always restored by a second toggle: an entry that went
  with its last actor comes back at the end of the array, and an actor that was removed
  comes back at the end of the entry. The ledger, which has no order, is the same.
\<close>

lemma toggle_twice_reorders:
  "Option.bind (toggle isHex24 canon24 ''+1'' userS
     [\<lparr>emoji = ''+1'', users = [userS]\<rparr>, \<lparr>emoji = ''ok'', users = [userU]\<rparr>])
     (toggle isHex24 canon24 ''+1'' userS) =
   Some [\<lparr>emoji = ''ok'', users = [userU]\<rparr>, \<lparr>emoji = ''+1'', users = [userS]\<rparr>]"
  by (simp add: toggle_Cons toggle_Nil splice1_def) (simp add: scenario_defs)

section \<open>What each handler does to the stored messages\<close>

lemma toggleReaction_saved:
  assumes "param c ''messageId'' = Some mid" and "isValid mid"
    and "json_conversationId c = Some conv" and "isValid conv"
    and "json_user c = Some u"
    and "find (\<lambda>m. msg_id m = canon mid) (Messages s) = Some m"
    and "toggle isValid canon (json_emoji c) u (reactions m) = Some rs'"
  shows "Messages (snd (toggleReaction isValid canon c s)) =
           update_first (\<lambda>x. msg_id x = canon mid) (\<lambda>_. m\<lparr>reactions := rs'\<rparr>) (Messages s)"
proof -
  have "msg_id m = canon mid" using assms(6) by (auto dest: find_Some_P)
  then show ?thesis using assms
    by (simp add: toggleReaction_def isValid_opt_def Message_findById_def Message_save_def
        emit_def Let_def)
qed

lemma toggleReaction_lookup:
  assumes "param c ''messageId'' = Some mid" and "isValid mid"
    and "json_conversationId c = Some conv" and "isValid conv"
    and "json_user c = Some u"
    and "find (\<lambda>m. msg_id m = canon mid) (Messages s) = Some m"
    and "toggle isValid canon (json_emoji c) u (reactions m) = Some rs'"
  shows "find (\<lambda>m. msg_id m = canon mid) (Messages (snd (toggleReaction isValid canon c s))) =
           Some (m\<lparr>reactions := rs'\<rparr>)"
proof -
  have "msg_id m = canon mid" using assms(6) by (auto dest: find_Some_P)
  then show ?thesis
    unfolding toggleReaction_saved [OF assms]
    using assms(6) by (intro find_update_first) auto
qed

lemma toggleReaction_thrown:
  assumes "param c ''messageId'' = Some mid" and "isValid mid"
    and "json_conversationId c = Some conv" and "isValid conv"
    and "json_user c = Some u"
    and "find (\<lambda>m. msg_id m = canon mid) (Messages s) = Some m"
    and "toggle isValid canon (json_emoji c) u (reactions m) = None"
  shows "toggleReaction isValid canon c s =
           ((Err ''Failed to add reaction'', 500), log (Db ''Message.findById'') s)"
  using assms
  by (simp add: toggleReaction_def isValid_opt_def Message_findById_def Let_def)

lemma toggleReaction_Messages_cases:
  "Messages (snd (toggleReaction isValid canon c s)) = Messages s \<or>
   (\<exists>m u rs'. find (\<lambda>x. msg_id x = canon (the (param c ''messageId''))) (Messages s) = Some m \<and>
      toggle isValid canon (json_emoji c) u (reactions m) = Some rs' \<and>
      Messages (snd (toggleReaction isValid canon c s)) =
        update_first (\<lambda>x. msg_id x = msg_id m) (\<lambda>_. m\<lparr>reactions := rs'\<rparr>) (Messages s))"
  by (auto simp: toggleReaction_def isValid_opt_def Message_findById_def Message_save_def
      emit_def Let_def split: option.splits)

lemma toggleReaction_no_empty:
  assumes "no_empty_entry s"
  shows "no_empty_entry (snd (toggleReaction isValid canon c s))"
proof -
  from toggleReaction_Messages_cases [of isValid canon c s]
  show ?thesis
  proof
    assume "Messages (snd (toggleReaction isValid canon c s)) = Messages s"
    with assms show ?thesis by (simp add: no_empty_entry_def)
  next
    assume "\<exists>m u rs'. find (\<lambda>x. msg_id x = canon (the (param c ''messageId''))) (Messages s) = Some m \<and>
      toggle isValid canon (json_emoji c) u (reactions m) = Some rs' \<and>
      Messages (snd (toggleReaction isValid canon c s)) =
        update_first (\<lambda>x. msg_id x = msg_id m) (\<lambda>_. m\<lparr>reactions := rs'\<rparr>) (Messages s)"
    then obtain m u rs'
      where f: "find (\<lambda>x. msg_id x = canon (the (param c ''messageId''))) (Messages s) = Some m"
        and t: "toggle isValid canon (json_emoji c) u (reactions m) = Some rs'"
        and eq: "Messages (snd (toggleReaction isValid canon c s)) =
          update_first (\<lambda>x. msg_id x = msg_id m) (\<lambda>_. m\<lparr>reactions := rs'\<rparr>) (Messages s)"
      by blast
    from f have "m \<in> set (Messages s)" by (auto dest: find_Some_P)
    with assms have "list_all (\<lambda>r. users r \<noteq> []) (reactions m)"
      by (auto simp: no_empty_entry_def list_all_iff)
    then have "list_all (\<lambda>r. users r \<noteq> []) rs'"
      using t by (rule nonempty_toggle)
    then show ?thesis using assms unfolding no_empty_entry_def eq
      by (intro list_all_update_first) (auto simp: list_all_iff)
  qed
qed

lemma createMessage_no_empty:
  "no_empty_entry s \<Longrightarrow> no_empty_entry (snd (createMessage isValid canon now newId c s))"
  by (auto simp: createMessage_def Channel_findById_def DiscordServer_findOne_def
      Message_create_def emit_def Channel_findByIdAndUpdate_def Let_def no_empty_entry_def log_def
      split: if_splits option.splits)

lemma getMessagesByChannelId_Messages:
  "Messages (snd (getMessagesByChannelId isValid canon c s)) = Messages s"
  by (auto simp: getMessagesByChannelId_def getMessagesByChannelId_messages_def Message_find_def
      Let_def split: if_splits option.splits)

lemma deleteMessage_no_empty:
  "no_empty_entry s \<Longrightarrow> no_empty_entry (snd (deleteMessage isValid canon c s))"
  by (auto simp: deleteMessage_def Message_findOne_def Message_findByIdAndDelete_def
      emit_def Channel_updateOne_def Let_def no_empty_entry_def log_def list_all_delete_first
      split: if_splits option.splits)

lemma updateMessage_no_empty:
  "no_empty_entry s \<Longrightarrow> no_empty_entry (snd (updateMessage isValid canon now c s))"
  by (auto simp: updateMessage_def Message_findOne_def Message_findByIdAndUpdate_def
      emit_def Let_def no_empty_entry_def log_def
      intro!: list_all_update_first
      split: if_splits option.splits) (auto simp: list_all_iff)

lemma reachable_no_empty: "reachable isValid canon s \<Longrightarrow> no_empty_entry s"
proof (induction rule: reachable.induct)
  case (initial s)
  then show ?case by (simp add: no_empty_entry_def)
next
  case (list s c)
  then show ?case by (simp add: no_empty_entry_def getMessagesByChannelId_Messages)
qed (simp_all add: createMessage_no_empty deleteMessage_no_empty updateMessage_no_empty
    toggleReaction_no_empty)

text \<open>
  Two more facts about every reachable state: every stored message has a sender, which
  is what the theorem on Delete through the router assumes of the store, and no ledger
  has two entries for one symbol. (An actor can come to stand twice in an entry, by a
  toggle that spells the identifier otherwise than the store.)
\<close>

lemma reachable_has_sender:
  "reachable isValid canon s \<Longrightarrow> list_all (\<lambda>m. sender m \<noteq> None) (Messages s)"
proof (induction rule: reachable.induct)
  case (initial s)
  then show ?case by simp
next
  case (create s now newId c)
  then show ?case
    by (auto simp: createMessage_def Channel_findById_def DiscordServer_findOne_def
        Message_create_def emit_def Channel_findByIdAndUpdate_def Let_def falsy_def
        split: if_splits option.splits)
next
  case (list s c)
  then show ?case by (simp add: getMessagesByChannelId_Messages)
next
  case (delete s c)
  then show ?case
    by (auto simp: deleteMessage_def Message_findOne_def Message_findByIdAndDelete_def
        emit_def Channel_updateOne_def Let_def list_all_delete_first
        split: if_splits option.splits)
next
  case (update s now c)
  then show ?case
    by (auto simp: updateMessage_def Message_findOne_def Message_findByIdAndUpdate_def
        emit_def Let_def intro!: list_all_update_first split: if_splits option.splits)
       (auto simp: list_all_iff)
next
  case (react s c)
  from toggleReaction_Messages_cases [of isValid canon c s] react.IH show ?case
    by (auto dest!: set_update_first find_Some_P simp: list_all_iff)
qed

lemma reachable_distinct_emoji:
  "reachable isValid canon s \<Longrightarrow> list_all (\<lambda>m. distinct (map emoji (reactions m))) (Messages s)"
proof (induction rule: reachable.induct)
  case (initial s)
  then show ?case by simp
next
  case (create s now newId c)
  then show ?case
    by (auto simp: createMessage_def Channel_findById_def DiscordServer_findOne_def
        Message_create_def emit_def Channel_findByIdAndUpdate_def Let_def
        split: if_splits option.splits)
next
  case (list s c)
  then show ?case by (simp add: getMessagesByChannelId_Messages)
next
  case (delete s c)
  then show ?case
    by (auto simp: deleteMessage_def Message_findOne_def Message_findByIdAndDelete_def
        emit_def Channel_updateOne_def Let_def list_all_delete_first
        split: if_splits option.splits)
next
  case (update s now c)
  then show ?case
    by (auto simp: updateMessage_def Message_findOne_def Message_findByIdAndUpdate_def
        emit_def Let_def intro!: list_all_update_first split: if_splits option.splits)
       (auto simp: list_all_iff)
next
  case (react s c)
  from toggleReaction_Messages_cases [of isValid canon c s] react.IH show ?case
    by (auto dest!: set_update_first find_Some_P simp: list_all_iff)
       (blast intro: distinct_emoji_toggle)
qed

section \<open>ToggleReaction\<close>

text \<open>
  C4, as the specification states it: every ToggleReaction call on an existing message
  takes the ledger through one of three cases, each of which changes it. Two calls do
  not. With the actor \<open>bob\<close>, which is no identifier, on a message without reactions,
  the push throws, the call is answered 500 and nothing is saved: no entry is created.
  With the identifier of S in upper case, on a message to which S has reacted, the
  stored identifier does not equal the string sent, so S is not removed but pushed a
  second time, and the ledger is what it was. When S, spelled as the store spells it,
  then toggles on that entry, one of its two occurrences is removed and S is still a
  member.
\<close>

theorem toggleReaction_three_cases_counterexample:
  "find (\<lambda>m. msg_id m = msgM) (Messages ex_posted) = Some ex_message
   \<and> reactions ex_message = []
   \<and> \<not> isHex24 ''bob''
   \<and> fst (toggleReaction isHex24 canon24 (ex_react ''bob'' (Some chanC)) ex_posted) =
       (Err ''Failed to add reaction'', 500)
   \<and> Messages (snd (toggleReaction isHex24 canon24 (ex_react ''bob'' (Some chanC)) ex_posted)) =
       Messages ex_posted
   \<and> isHex24 userS_upper \<and> canon24 userS_upper = userS
   \<and> map reactions (Messages ex_liked) = [[\<lparr>emoji = ''+1'', users = [userS]\<rparr>]]
   \<and> fst (toggleReaction isHex24 canon24 (ex_react userS_upper (Some chanC)) ex_liked) =
       (Info ''Reaction updated successfully'', 200)
   \<and> map reactions
        (Messages (snd (toggleReaction isHex24 canon24 (ex_react userS_upper (Some chanC)) ex_liked)))
       = [[\<lparr>emoji = ''+1'', users = [userS, userS]\<rparr>]]
   \<and> map reactions
        (Messages (snd (toggleReaction isHex24 canon24 (ex_react userS (Some chanC))
           (snd (toggleReaction isHex24 canon24 (ex_react userS_upper (Some chanC)) ex_liked)))))
       = [[\<lparr>emoji = ''+1'', users = [userS]\<rparr>]]"
  by (simp add: scenario_defs toggleReaction_def toggle_def isValid_opt_def Message_findById_def
      Message_save_def emit_def log_def Let_def splice1_def)

text \<open>
  C4, amended: for an actor whose identifier is well formed and is sent as the store
  holds it (\<open>canon u = u\<close>), and a message whose ledger is well formed (one entry per
  symbol, no actor twice in an entry, no empty entry), a ToggleReaction call with
  well-formed message and feed identifiers on an existing message takes the ledger of
  that message through exactly one of three cases: no entry for the symbol, and an
  entry with the actor as sole member is created; an entry of which the actor is a
  member, and the actor is removed, the entry going with its last member; an entry of
  which the actor is not a member, and the actor is added. The three cases are
  \<open>toggle_spec\<close>.
\<close>

theorem toggleReaction_three_cases:
  assumes "param c ''messageId'' = Some mid" and "isValid mid"
    and "json_conversationId c = Some conv" and "isValid conv"
    and "json_user c = Some u" and "isValid u" and "canon u = u"
    and "find (\<lambda>m. msg_id m = canon mid) (Messages s) = Some m"
    and "wf_ledger (reactions m)"
  shows "\<exists>m'. find (\<lambda>m. msg_id m = canon mid)
                (Messages (snd (toggleReaction isValid canon c s))) = Some m'
           \<and> ledger_of (reactions m') = toggle_spec (json_emoji c) u (ledger_of (reactions m))"
proof -
  obtain rs' where t: "toggle isValid canon (json_emoji c) u (reactions m) = Some rs'"
    using toggle_Some [where isValid = isValid and u = u, OF assms(6)] by blast
  from toggleReaction_lookup [OF assms(1-5,8) t] toggle_refines [where isValid = isValid and canon = canon and u = u, OF assms(6,7,9) t]
  show ?thesis by simp
qed

theorem toggleReaction_three_cases_witness:
  "find (\<lambda>m. msg_id m = canon24 msgM) (Messages ex_liked) =
     Some (ex_message\<lparr>reactions := [\<lparr>emoji = ''+1'', users = [userS]\<rparr>]\<rparr>)
   \<and> wf_ledger [\<lparr>emoji = ''+1'', users = [userS]\<rparr>]
   \<and> isHex24 userU \<and> canon24 userU = userU
   \<and> (\<exists>m'. find (\<lambda>m. msg_id m = canon24 msgM)
              (Messages (snd (toggleReaction isHex24 canon24 (ex_react userU (Some chanC)) ex_liked)))
            = Some m'
          \<and> ledger_of (reactions m') = [''+1'' \<mapsto> {userS, userU}])"
proof -
  have f: "find (\<lambda>m. msg_id m = canon24 msgM) (Messages ex_liked) =
      Some (ex_message\<lparr>reactions := [\<lparr>emoji = ''+1'', users = [userS]\<rparr>]\<rparr>)"
    by (simp add: scenario_defs)
  have w: "wf_ledger (reactions (ex_message\<lparr>reactions := [\<lparr>emoji = ''+1'', users = [userS]\<rparr>]\<rparr>))"
    by (simp add: wf_ledger_def)
  have l: "toggle_spec ''+1'' userU (ledger_of [\<lparr>emoji = ''+1'', users = [userS]\<rparr>]) =
      [''+1'' \<mapsto> {userS, userU}]"
    by (auto simp: toggle_spec_def ledger_of_def scenario_defs fun_eq_iff)
  have u: "isHex24 userU" "canon24 userU = userU"
    by (simp_all add: scenario_defs)
  have "param (ex_react userU (Some chanC)) ''messageId'' = Some msgM"
    and "isHex24 msgM" and "json_conversationId (ex_react userU (Some chanC)) = Some chanC"
    and "isHex24 chanC" and "json_user (ex_react userU (Some chanC)) = Some userU"
    and "json_emoji (ex_react userU (Some chanC)) = ''+1''"
    by (simp_all add: scenario_defs)
  from toggleReaction_three_cases [OF this(1-5) u f w] this(6) l f w u
  show ?thesis by simp
qed




text \<open>
  C6. After a ToggleReaction call, on any request and in any state the handlers can
  reach from a store without messages, no stored message has a reaction entry with an
  empty list of actors.
\<close>

theorem toggleReaction_never_empty:
  assumes "reachable isValid canon s"
  shows "no_empty_entry (snd (toggleReaction isValid canon c s))"
  using assms by (intro toggleReaction_no_empty reachable_no_empty)

theorem toggleReaction_never_empty_witness:
  "reachable isHex24 canon24 (snd (createMessage isHex24 canon24 1000 msgM ex_create ex_init))
   \<and> map reactions (Messages (snd (createMessage isHex24 canon24 1000 msgM ex_create ex_init)))
       = [[]]
   \<and> no_empty_entry (snd (toggleReaction isHex24 canon24 (ex_react userS (Some chanC))
        (snd (createMessage isHex24 canon24 1000 msgM ex_create ex_init))))
   \<and> map reactions (Messages (snd (toggleReaction isHex24 canon24 (ex_react userS (Some chanC))
        (snd (createMessage isHex24 canon24 1000 msgM ex_create ex_init)))))
      = [[\<lparr>emoji = ''+1'', users = [userS]\<rparr>]]"
proof -
  have "reachable isHex24 canon24 ex_init"
    by (rule reachable.initial) (simp add: scenario_defs)
  then have r: "reachable isHex24 canon24
      (snd (createMessage isHex24 canon24 1000 msgM ex_create ex_init))"
    by (rule reachable.create)
  have c: "Messages (snd (createMessage isHex24 canon24 1000 msgM ex_create ex_init)) = [ex_message]"
    by (simp add: scenario_defs createMessage_def falsy_def isValid_opt_def Channel_findById_def
        DiscordServer_findOne_def Message_create_def emit_def Channel_findByIdAndUpdate_def Let_def)
  have p: "param (ex_react userS (Some chanC)) ''messageId'' = Some msgM" "isHex24 msgM"
    "json_conversationId (ex_react userS (Some chanC)) = Some chanC" "isHex24 chanC"
    "json_user (ex_react userS (Some chanC)) = Some userS"
    by (simp_all add: scenario_defs)
  have fm: "find (\<lambda>m. msg_id m = canon24 msgM)
      (Messages (snd (createMessage isHex24 canon24 1000 msgM ex_create ex_init))) = Some ex_message"
    by (simp add: c) (simp add: scenario_defs)
  have tg: "toggle isHex24 canon24 (json_emoji (ex_react userS (Some chanC))) userS
      (reactions ex_message) = Some [\<lparr>emoji = ''+1'', users = [userS]\<rparr>]"
    by (simp add: toggle_def) (simp add: scenario_defs)
  have t: "map reactions (Messages (snd (toggleReaction isHex24 canon24 (ex_react userS (Some chanC))
        (snd (createMessage isHex24 canon24 1000 msgM ex_create ex_init)))))
      = [[\<lparr>emoji = ''+1'', users = [userS]\<rparr>]]"
    unfolding toggleReaction_saved [OF p fm tg] c
    by (simp add: scenario_defs)
  from toggleReaction_never_empty [OF r, of "ex_react userS (Some chanC)"] r c t
  show ?thesis by (simp add: ex_message_def)
qed

text \<open>
  C10. A ToggleReaction call whose target feed identifier is missing or not well formed
  is answered 400 "Invalid ID format" with the state untouched: no database call is
  made and no event is emitted, also when the message identifier is well formed and
  the message exists.
\<close>

theorem toggleReaction_invalid_feed:
  assumes "\<not> isValid_opt isValid (json_conversationId c)"
  shows "toggleReaction isValid canon c s = ((Err ''Invalid ID format'', 400), s)"
  using assms by (simp add: toggleReaction_def)

theorem toggleReaction_invalid_feed_witness:
  "\<not> isValid_opt isHex24 (Some ''general'')
   \<and> isHex24 msgM
   \<and> find (\<lambda>m. msg_id m = canon24 msgM) (Messages ex_posted) = Some ex_message
   \<and> toggleReaction isHex24 canon24 (ex_react userS (Some ''general'')) ex_posted =
       ((Err ''Invalid ID format'', 400), ex_posted)"
proof -
  have h: "\<not> isValid_opt isHex24 (json_conversationId (ex_react userS (Some ''general'')))"
    by (simp add: scenario_defs isValid_opt_def)
  have "\<not> isValid_opt isHex24 (Some ''general'')" and "isHex24 msgM"
    and "find (\<lambda>m. msg_id m = canon24 msgM) (Messages ex_posted) = Some ex_message"
    by (simp_all add: scenario_defs isValid_opt_def)
  with toggleReaction_invalid_feed [OF h, of canon24 ex_posted] show ?thesis by simp
qed

section \<open>Listing the messages of a channel\<close>




text \<open>
  Outside these positions the query layer decides: a page size of 0 is no limit, and a
  page of 0 makes the offset negative, which the server rejects.
\<close>

lemma getMessagesByChannelId_limit_0:
  "fst (getMessagesByChannelId isHex24 canon24
     (ex_page chanC [''page'' \<mapsto> 1, ''limit'' \<mapsto> 0]) ex_five) = (Docs (rev ex_created), 200)"
  by (simp add: scenario_defs getMessagesByChannelId_def getMessagesByChannelId_messages_def
      Message_find_def falsy_def isValid_opt_def Let_def)

lemma getMessagesByChannelId_page_0:
  "fst (getMessagesByChannelId isHex24 canon24
     (ex_page chanC [''page'' \<mapsto> 0, ''limit'' \<mapsto> 2]) ex_five) =
   (Err ''Failed to fetch messages'', 500)"
  by (simp add: scenario_defs getMessagesByChannelId_def getMessagesByChannelId_messages_def
      Message_find_def falsy_def isValid_opt_def Let_def)



section \<open>The order of the event and the Channel summary update\<close>

text \<open>
  C8, as the specification states it: in a successful Create the Channel summary is
  updated before the event is emitted. It is not: in the scenario S posts "hi" in C, the
  call is answered 201, and no event follows the write to the Channel summary.
\<close>

theorem index_update_before_emit_counterexample:
  "snd (fst (createMessage isHex24 canon24 1000 msgM ex_create ex_init)) = 201
   \<and> \<not> index_update_before_emit
         (trace (snd (createMessage isHex24 canon24 1000 msgM ex_create ex_init)))
   \<and> trace (snd (createMessage isHex24 canon24 1000 msgM ex_create ex_init)) =
       [Db ''Channel.findById'', Db ''DiscordServer.findOne'', Db ''Message.create'',
        Emit chanC ''message'' (PMessage ex_message), Db ''Channel.findByIdAndUpdate'']"
  by (simp add: scenario_defs createMessage_def falsy_def isValid_opt_def Channel_findById_def
      DiscordServer_findOne_def Message_create_def emit_def Channel_findByIdAndUpdate_def Let_def
      index_update_before_emit_def is_index_update_def)

text \<open>
  C8, amended: in every successful mutation the event is emitted before the Channel
  summary is updated. A Create answered 201 stores the message, emits \<open>message\<close> to the
  channel and then appends the identifier to the Channel summary; a Delete answered 200
  removes the message, emits \<open>messageDeleted\<close> and then pulls the identifier from the
  Channel summary.
\<close>

theorem emit_precedes_index_update:
  "(snd (fst (createMessage isValid canon now newId c s)) = 201 \<longrightarrow>
      (\<exists>m. trace (snd (createMessage isValid canon now newId c s)) =
         trace s @ [Db ''Channel.findById'', Db ''DiscordServer.findOne'', Db ''Message.create'',
                    Emit (the (param c ''channelId'')) ''message'' (PMessage m),
                    Db ''Channel.findByIdAndUpdate'']))
   \<and> (snd (fst (deleteMessage isValid canon c' s')) = 200 \<longrightarrow>
      (\<exists>ch. trace (snd (deleteMessage isValid canon c' s')) =
         trace s' @ [Db ''Message.findOne'', Db ''Message.findByIdAndDelete'',
                    Emit ch ''messageDeleted'' (PId (the (param c' ''messageId''))),
                    Db ''Channel.updateOne'']))"
proof (intro conjI impI)
  assume "snd (fst (createMessage isValid canon now newId c s)) = 201"
  then show "\<exists>m. trace (snd (createMessage isValid canon now newId c s)) =
         trace s @ [Db ''Channel.findById'', Db ''DiscordServer.findOne'', Db ''Message.create'',
                    Emit (the (param c ''channelId'')) ''message'' (PMessage m),
                    Db ''Channel.findByIdAndUpdate'']"
    by (auto simp: createMessage_def Channel_findById_def DiscordServer_findOne_def
        Message_create_def emit_def Channel_findByIdAndUpdate_def Let_def
        split: if_splits option.splits)
next
  assume "snd (fst (deleteMessage isValid canon c' s')) = 200"
  then show "\<exists>ch. trace (snd (deleteMessage isValid canon c' s')) =
         trace s' @ [Db ''Message.findOne'', Db ''Message.findByIdAndDelete'',
                    Emit ch ''messageDeleted'' (PId (the (param c' ''messageId''))),
                    Db ''Channel.updateOne'']"
    by (auto simp: deleteMessage_def Message_findOne_def Message_findByIdAndDelete_def
        emit_def Channel_updateOne_def Let_def split: if_splits option.splits)
qed

theorem emit_precedes_index_update_witness:
  "snd (fst (createMessage isHex24 canon24 1000 msgM ex_create ex_init)) = 201
   \<and> (\<exists>m. trace (snd (createMessage isHex24 canon24 1000 msgM ex_create ex_init)) =
         [Db ''Channel.findById'', Db ''DiscordServer.findOne'', Db ''Message.create'',
          Emit chanC ''message'' (PMessage m), Db ''Channel.findByIdAndUpdate''])
   \<and> snd (fst (deleteMessage isHex24 canon24
        (ex_request\<lparr>param := [''messageId'' \<mapsto> msgM, ''user'' \<mapsto> userS]\<rparr>) ex_posted)) = 200
   \<and> (\<exists>ch. trace (snd (deleteMessage isHex24 canon24
        (ex_request\<lparr>param := [''messageId'' \<mapsto> msgM, ''user'' \<mapsto> userS]\<rparr>) ex_posted)) =
         [Db ''Message.findOne'', Db ''Message.findByIdAndDelete'',
          Emit ch ''messageDeleted'' (PId msgM), Db ''Channel.updateOne''])"
proof -
  let ?del = "ex_request\<lparr>param := [''messageId'' \<mapsto> msgM, ''user'' \<mapsto> userS]\<rparr>"
  have a: "snd (fst (createMessage isHex24 canon24 1000 msgM ex_create ex_init)) = 201"
    by (simp add: scenario_defs createMessage_def falsy_def isValid_opt_def Channel_findById_def
        DiscordServer_findOne_def Message_create_def emit_def Channel_findByIdAndUpdate_def Let_def)
  have b: "snd (fst (deleteMessage isHex24 canon24 ?del ex_posted)) = 200"
    by (simp add: scenario_defs deleteMessage_def falsy_def isValid_opt_def Message_findOne_def
        Message_findByIdAndDelete_def emit_def Channel_updateOne_def Let_def)
  have c: "the (param ex_create ''channelId'') = chanC" "the (param ?del ''messageId'') = msgM"
    "trace ex_init = []" "trace ex_posted = []"
    by (simp_all add: ex_create_def ex_request_def ex_init_def ex_posted_def)
  from emit_precedes_index_update [of isHex24 canon24 1000 msgM ex_create ex_init ?del ex_posted] a b
  show ?thesis unfolding c by simp
qed

section \<open>Delete and Update through the router\<close>

text \<open>
  The handlers \<^verbatim>\<open>deleteMessage\<close> and \<^verbatim>\<open>updateMessage\<close> read the acting user
  from the route parameters \<^verbatim>\<open>user\<close> and \<^verbatim>\<open>userId\<close>. When the context carries
  them, well formed, they do what the specification says of Delete and Update.
\<close>

lemma deleteMessage_by_author:
  assumes "param c ''messageId'' = Some mid" and "mid \<noteq> []" and "isValid mid"
    and "param c ''user'' = Some u" and "isValid u"
    and "find (\<lambda>m. msg_id m = canon mid) (Messages s) = Some m"
    and "sender m = Some (canon u)" and "channel m = Some ch" and "io c"
  shows "fst (deleteMessage isValid canon c s) = (Info ''Message deleted successfully'', 200)"
    and "Messages (snd (deleteMessage isValid canon c s)) =
           delete_first (\<lambda>m. msg_id m = canon mid) (Messages s)"
    and "Channels (snd (deleteMessage isValid canon c s)) =
           update_first (\<lambda>c. canon mid \<in> set (chan_messages c))
             (\<lambda>c. c\<lparr>chan_messages := removeAll (canon mid) (chan_messages c)\<rparr>) (Channels s)"
proof -
  have "find (\<lambda>m. msg_id m = canon mid \<and> sender m = Some (canon u)) (Messages s) = Some m"
    using assms(6,7) by (rule find_conj)
  then show "fst (deleteMessage isValid canon c s) = (Info ''Message deleted successfully'', 200)"
    and "Messages (snd (deleteMessage isValid canon c s)) =
           delete_first (\<lambda>m. msg_id m = canon mid) (Messages s)"
    and "Channels (snd (deleteMessage isValid canon c s)) =
           update_first (\<lambda>c. canon mid \<in> set (chan_messages c))
             (\<lambda>c. c\<lparr>chan_messages := removeAll (canon mid) (chan_messages c)\<rparr>) (Channels s)"
    using assms
    by (simp_all add: deleteMessage_def falsy_def isValid_opt_def Message_findOne_def
        Message_findByIdAndDelete_def emit_def Channel_updateOne_def Let_def)
qed

lemma deleteMessage_by_other:
  assumes "param c ''messageId'' = Some mid" and "mid \<noteq> []" and "isValid mid"
    and "param c ''user'' = Some u" and "isValid u"
    and "list_all (\<lambda>m. msg_id m = canon mid \<longrightarrow> sender m \<noteq> Some (canon u)) (Messages s)"
  shows "deleteMessage isValid canon c s =
           ((Err ''You do not have permission to delete messages'', 403),
            log (Db ''Message.findOne'') s)"
proof -
  have "find (\<lambda>m. msg_id m = canon mid \<and> sender m = Some (canon u)) (Messages s) = None"
    using assms(6) by (auto simp: find_None_iff list_all_iff)
  then show ?thesis using assms(1-5)
    by (simp add: deleteMessage_def falsy_def isValid_opt_def Message_findOne_def Let_def)
qed

lemma updateMessage_by_author:
  assumes "param c ''messageId'' = Some mid" and "mid \<noteq> []" and "isValid mid"
    and "param c ''userId'' = Some u" and "isValid u"
    and "json_content c = Some new" and "new \<noteq> []"
    and "find (\<lambda>m. msg_id m = canon mid) (Messages s) = Some m"
    and "sender m = Some (canon u)" and "channel m = Some ch" and "io c"
  shows "updateMessage isValid canon now c s =
           ((Doc (m\<lparr>content := new, updatedAt := now\<rparr>), 200),
            emit ch ''messageUpdated'' (PMessage (m\<lparr>content := new, updatedAt := now\<rparr>))
              (log (Db ''Message.findByIdAndUpdate'')
                ((log (Db ''Message.findOne'') s)
                   \<lparr>Messages := update_first (\<lambda>m. msg_id m = canon mid)
                      (\<lambda>m. m\<lparr>content := new, updatedAt := now\<rparr>) (Messages s)\<rparr>)))"
proof -
  have "find (\<lambda>m. msg_id m = canon mid \<and> sender m = Some (canon u)) (Messages s) = Some m"
    using assms(8,9) by (rule find_conj)
  then show ?thesis using assms
    by (simp add: updateMessage_def falsy_def isValid_opt_def Message_findOne_def
        Message_findByIdAndUpdate_def Let_def)
qed

text \<open>
  C1. Delete by the author of an existing message has to succeed and remove the message.
  The route \<^verbatim>\<open>/delete-message/:messageId\<close> has no parameter \<^verbatim>\<open>user\<close>, so the
  handler looks for a message with that identifier and no sender: in a store where
  every message has a sender, every Delete request with a well-formed identifier is
  answered 403 after that one lookup, the author's too, and nothing is removed.
\<close>

theorem route_delete_forbidden_for_all:
  assumes "seg \<noteq> []" and "isValid seg"
    and "list_all (\<lambda>m. sender m \<noteq> None) (Messages s)"
  shows "messageRouter isValid canon now newId DELETE [''delete-message'', seg] c s =
           Some ((Err ''You do not have permission to delete messages'', 403),
                 log (Db ''Message.findOne'') s)"
proof -
  have "find (\<lambda>m. msg_id m = canon seg \<and> sender m = None) (Messages s) = None"
    using assms(3) by (auto simp: find_None_iff list_all_iff)
  then show ?thesis using assms(1,2)
    by (simp add: messageRouter_def deleteMessage_def falsy_def isValid_opt_def
        Message_findOne_def Let_def)
qed

theorem route_delete_forbidden_for_all_witness:
  "find (\<lambda>m. msg_id m = canon24 msgM) (Messages ex_posted) = Some ex_message
   \<and> sender ex_message = Some userS
   \<and> messageRouter isHex24 canon24 2000 [] DELETE [''delete-message'', msgM] ex_request ex_posted =
       Some ((Err ''You do not have permission to delete messages'', 403),
             ex_posted\<lparr>trace := [Db ''Message.findOne'']\<rparr>)"
proof -
  have "msgM \<noteq> []" and "isHex24 msgM"
    and "list_all (\<lambda>m. sender m \<noteq> None) (Messages ex_posted)"
    by (simp_all add: scenario_defs)
  from route_delete_forbidden_for_all
    [where isValid = isHex24 and seg = msgM and s = ex_posted, OF this,
     of canon24 2000 "[]" ex_request]
  show ?thesis by (simp add: log_def ex_posted_def ex_message_def)
     (simp add: scenario_defs)
qed

text \<open>
  C2. Update by the author with non-empty content has to succeed. The route
  \<^verbatim>\<open>/update-message/:messageId\<close> has no parameter \<^verbatim>\<open>userId\<close>, and an undefined
  user identifier is not well formed: every Update request is answered 400 before any
  database call, whatever the message, the actor and the content.
\<close>

theorem route_update_always_invalid:
  assumes "seg \<noteq> []"
  shows "messageRouter isValid canon now newId PUT [''update-message'', seg] c s =
           Some ((Err ''Invalid message ID format or user ID format'', 400), s)"
  using assms
  by (simp add: messageRouter_def updateMessage_def falsy_def isValid_opt_def Let_def)

theorem route_update_always_invalid_witness:
  "find (\<lambda>m. msg_id m = canon24 msgM) (Messages ex_posted) = Some ex_message
   \<and> isHex24 msgM
   \<and> messageRouter isHex24 canon24 2000 [] PUT [''update-message'', msgM]
       (ex_request\<lparr>json_content := Some ''hello''\<rparr>) ex_posted =
       Some ((Err ''Invalid message ID format or user ID format'', 400), ex_posted)"
proof -
  have "msgM \<noteq> []" by (simp add: msgM_def)
  from route_update_always_invalid [OF this, of isHex24 canon24 2000 "[]"
      "ex_request\<lparr>json_content := Some ''hello''\<rparr>" ex_posted]
  show ?thesis by (simp add: scenario_defs)
qed

text \<open>
  C7. Delete of a message that does not exist has to fail with NotFound. The handler
  looks the message up together with its sender first and answers 403 when it finds
  nothing, so its own 404 branch is never taken: a well-formed identifier of no message
  is answered 403 "You do not have permission to delete messages" (and 500, when the
  context carries a user that is not well formed and the lookup throws), never 404.
\<close>

theorem deleteMessage_missing_is_forbidden:
  assumes "param c ''messageId'' = Some mid" and "mid \<noteq> []" and "isValid mid"
    and "find (\<lambda>m. msg_id m = canon mid) (Messages s) = None"
  shows "deleteMessage isValid canon c s =
           (if (case param c ''user'' of None \<Rightarrow> True | Some u \<Rightarrow> isValid u)
            then (Err ''You do not have permission to delete messages'', 403)
            else (Err ''Failed to delete message'', 500),
            log (Db ''Message.findOne'') s)"
proof -
  have "find (\<lambda>m. msg_id m = canon mid \<and> sender m = x) (Messages s) = None" for x
    using assms(4) by (rule find_conj_None)
  then show ?thesis using assms(1-3)
    by (simp add: deleteMessage_def falsy_def isValid_opt_def Message_findOne_def Let_def
        split: option.splits)
qed

theorem deleteMessage_missing_is_forbidden_witness:
  "isHex24 msgM
   \<and> find (\<lambda>m. msg_id m = canon24 msgM) (Messages ex_init) = None
   \<and> deleteMessage isHex24 canon24
       (ex_request\<lparr>param := [''messageId'' \<mapsto> msgM, ''user'' \<mapsto> userS]\<rparr>) ex_init =
       ((Err ''You do not have permission to delete messages'', 403),
        ex_init\<lparr>trace := [Db ''Message.findOne'']\<rparr>)
   \<and> deleteMessage isHex24 canon24 (ex_request\<lparr>param := [''messageId'' \<mapsto> msgM]\<rparr>) ex_init =
       ((Err ''You do not have permission to delete messages'', 403),
        ex_init\<lparr>trace := [Db ''Message.findOne'']\<rparr>)
   \<and> deleteMessage isHex24 canon24
       (ex_request\<lparr>param := [''messageId'' \<mapsto> msgM, ''user'' \<mapsto> ''bob'']\<rparr>) ex_init =
       ((Err ''Failed to delete message'', 500), ex_init\<lparr>trace := [Db ''Message.findOne'']\<rparr>)"
proof -
  let ?c = "ex_request\<lparr>param := [''messageId'' \<mapsto> msgM, ''user'' \<mapsto> userS]\<rparr>"
  let ?d = "ex_request\<lparr>param := [''messageId'' \<mapsto> msgM]\<rparr>"
  let ?b = "ex_request\<lparr>param := [''messageId'' \<mapsto> msgM, ''user'' \<mapsto> ''bob'']\<rparr>"
  have h: "msgM \<noteq> []" "isHex24 msgM"
    "find (\<lambda>m. msg_id m = canon24 msgM) (Messages ex_init) = None"
    by (simp_all add: scenario_defs)
  have c: "param ?c ''messageId'' = Some msgM" "param ?c ''user'' = Some userS" "isHex24 userS"
    and d: "param ?d ''messageId'' = Some msgM" "param ?d ''user'' = None"
    and b: "param ?b ''messageId'' = Some msgM" "param ?b ''user'' = Some ''bob''"
      "\<not> isHex24 ''bob''"
    by (simp_all add: scenario_defs)
  have l: "log (Db ''Message.findOne'') ex_init = ex_init\<lparr>trace := [Db ''Message.findOne'']\<rparr>"
    by (simp add: log_def ex_init_def)
  from deleteMessage_missing_is_forbidden
    [where isValid = isHex24 and canon = canon24 and mid = msgM and s = ex_init and c = ?c,
     OF c(1) h]
    deleteMessage_missing_is_forbidden
    [where isValid = isHex24 and canon = canon24 and mid = msgM and s = ex_init and c = ?d,
     OF d(1) h]
    deleteMessage_missing_is_forbidden
    [where isValid = isHex24 and canon = canon24 and mid = msgM and s = ex_init and c = ?b,
     OF b(1) h]
    h(2,3)
  show ?thesis by (simp only: c d b l option.case if_True if_False simp_thms)
qed

end
